theory Spec2Isabelle
  imports Complex_Main
begin

section \<open>Domain model (internal/domain)\<close>

text \<open>
  Go's \<open>float64\<close> amounts and balances are modelled as exact reals: the comparisons and the
  additions and subtractions of the use cases are the mathematical ones (rounding, infinities
  and NaN are outside this embedding). Identifiers are the strings the code handles; their
  UUID syntax is not modelled. The \<open>CreatedAt\<close>/\<open>UpdatedAt\<close> columns, which gorm maintains from
  the wall clock, are left out.
\<close>

type_synonym float64 = real

record User =
  ID :: string
  Username :: string
  Name :: string
  DNI :: string

record Wallet =
  ID :: string
  UserID :: string
  Currency :: string
  Balance :: float64

definition DefaultCurrency :: string where
  "DefaultCurrency = ''USD''"

definition DefaultBalance :: float64 where
  "DefaultBalance = 0.0"

text \<open>\<open>NewWallet\<close> leaves the identifier at Go's zero value, the empty string.\<close>

definition NewWallet :: "string \<Rightarrow> Wallet" where
  "NewWallet userID =
     \<lparr>Wallet.ID = '''', UserID = userID, Currency = DefaultCurrency, Balance = DefaultBalance\<rparr>"

text \<open>
  Go's \<open>error\<close> values. \<open>ErrorsNew msg\<close> is \<open>errors.New(msg)\<close>; the others are what the
  libraries hand back: gorm's \<open>ErrRecordNotFound\<close>, \<open>database/sql\<close>'s \<open>ErrTxDone\<close>,
  a statement PostgreSQL rejects (with its SQLSTATE), go-redis's \<open>redis.Nil\<close>, and a
  statement or command that never got an answer (connection lost, context cancelled).
  \<open>NilDereference\<close> is the run-time panic of reading through a nil pointer.
\<close>

datatype error =
    ErrorsNew string
  | ErrRecordNotFound
  | ErrTxDone
  | PgError string
  | RedisNil
  | ConnError
  | NilDereference

text \<open>\<open>context.Context\<close>: the code only passes it on.\<close>

datatype Context = Background

text \<open>
  The repository contracts are Go interfaces; a value of an interface is a record of its
  methods over the state \<open>'s\<close> of the outside world. A Go result \<open>(*T, error)\<close> is an
  optional \<open>T\<close> (\<open>None\<close> is the nil pointer) and an optional error (\<open>None\<close> is the
  nil error), followed by the state the call leaves.
\<close>

record 's UserRepository =
  Save :: "Context \<Rightarrow> User \<Rightarrow> 's \<Rightarrow> error option \<times> 's"
  FindByID :: "Context \<Rightarrow> string \<Rightarrow> 's \<Rightarrow> User option \<times> error option \<times> 's"
  FindByUsername :: "Context \<Rightarrow> string \<Rightarrow> 's \<Rightarrow> User option \<times> error option \<times> 's"

record 's WalletRepository =
  Save :: "Context \<Rightarrow> Wallet \<Rightarrow> 's \<Rightarrow> error option \<times> 's"
  FindByID :: "Context \<Rightarrow> string \<Rightarrow> 's \<Rightarrow> Wallet option \<times> error option \<times> 's"
  FindByUserID :: "Context \<Rightarrow> string \<Rightarrow> 's \<Rightarrow> Wallet option \<times> error option \<times> 's"
  Update :: "Context \<Rightarrow> Wallet \<Rightarrow> 's \<Rightarrow> error option \<times> 's"

record 's TxnRepository =
  WithTransaction ::
    "Context \<Rightarrow> (Context \<Rightarrow> 's \<Rightarrow> error option \<times> 's) \<Rightarrow> 's \<Rightarrow> error option \<times> 's"

text \<open>
  \<open>CacheRepository.Set\<close> takes any value; its one caller passes a \<open>*User\<close>. The duration is
  in nanoseconds, as \<open>time.Duration\<close> is.
\<close>

record 's CacheRepository =
  Set :: "Context \<Rightarrow> string \<Rightarrow> User option \<Rightarrow> nat \<Rightarrow> 's \<Rightarrow> error option \<times> 's"
  Get :: "Context \<Rightarrow> string \<Rightarrow> 's \<Rightarrow> string \<times> error option \<times> 's"

section \<open>The user use case (internal/usecase)\<close>

record 's userUsecase =
  userRepo :: "'s UserRepository"
  walletRepo :: "'s WalletRepository"
  txnRepo :: "'s TxnRepository"

text \<open>
  \<open>uuid.New()\<close> draws from the system's random source; the two identifiers it returns, the
  user's (drawn before the transaction) and the wallet's (drawn inside the function literal),
  are parameters \<open>userUUID\<close> and \<open>walletUUID\<close> of the model.

  The function literal that \<open>Create\<close> hands to \<open>WithTransaction\<close>:
\<close>

definition Create_fn ::
  "'s userUsecase \<Rightarrow> User \<Rightarrow> string \<Rightarrow> Context \<Rightarrow> 's \<Rightarrow> error option \<times> 's" where
  "Create_fn u user walletUUID ctx s =
     (let (err, s) = UserRepository.Save (userRepo u) ctx user s in
      if err \<noteq> None then (err, s)
      else
        let wallet = NewWallet (User.ID user);
            wallet = wallet\<lparr>Wallet.ID := walletUUID\<rparr>;
            (err, s) = WalletRepository.Save (userUsecase.walletRepo u) ctx wallet s
        in if err \<noteq> None then (err, s) else (None, s))"

definition Create ::
  "'s userUsecase \<Rightarrow> string \<Rightarrow> string \<Rightarrow> Context \<Rightarrow> string \<Rightarrow> string \<Rightarrow> string \<Rightarrow> 's
     \<Rightarrow> User option \<times> error option \<times> 's" where
  "Create u userUUID walletUUID ctx username name dni s =
     (let (existingUser, err, s) = FindByUsername (userRepo u) ctx username s in
      if err = None \<and> existingUser \<noteq> None
      then (None, Some (ErrorsNew ''username already exists''), s)
      else
        let user = \<lparr>User.ID = userUUID, Username = username, Name = name, DNI = dni\<rparr>;
            (err, s) = WithTransaction (userUsecase.txnRepo u) ctx (Create_fn u user walletUUID) s
        in if err \<noteq> None then (None, err, s) else (Some user, None, s))"

section \<open>The wallet use cases (internal/usecase)\<close>

text \<open>A structured log record: level message and the key/value attributes.\<close>

datatype attr = Str string | Num float64

record 's walletUsecase =
  walletRepo :: "'s WalletRepository"
  txnRepo :: "'s TxnRepository"
  logger :: "Context \<Rightarrow> string \<Rightarrow> (string \<times> attr) list \<Rightarrow> 's \<Rightarrow> 's"

text \<open>The function literal that \<open>Recharge\<close> hands to \<open>WithTransaction\<close>.\<close>

definition Recharge_fn ::
  "'s walletUsecase \<Rightarrow> string \<Rightarrow> float64 \<Rightarrow> Context \<Rightarrow> 's \<Rightarrow> error option \<times> 's" where
  "Recharge_fn u walletID amount txCtx s =
     (let (wallet, err, s) = WalletRepository.FindByID (walletRepo u) txCtx walletID s in
      if err \<noteq> None then (err, s)
      else case wallet of
        None \<Rightarrow> (Some NilDereference, s)
      | Some wallet \<Rightarrow>
          let wallet = wallet\<lparr>Balance := Balance wallet + amount\<rparr>;
              s = logger u txCtx ''recharging wallet''
                    [(''wallet_id'', Str walletID), (''amount'', Num amount)] s
          in Update (walletRepo u) txCtx wallet s)"

definition Recharge ::
  "'s walletUsecase \<Rightarrow> Context \<Rightarrow> string \<Rightarrow> float64 \<Rightarrow> 's \<Rightarrow> error option \<times> 's" where
  "Recharge u ctx walletID amount s =
     (if amount \<le> 0 then (Some (ErrorsNew ''recharge amount must be positive''), s)
      else WithTransaction (txnRepo u) ctx (Recharge_fn u walletID amount) s)"

text \<open>The function literal that \<open>Transfer\<close> hands to \<open>WithTransaction\<close>.\<close>

definition Transfer_fn ::
  "'s walletUsecase \<Rightarrow> string \<Rightarrow> string \<Rightarrow> float64 \<Rightarrow> Context \<Rightarrow> 's \<Rightarrow> error option \<times> 's"
  where
  "Transfer_fn u fromWalletID toWalletID amount txCtx s =
     (let (fromWallet, err, s) = WalletRepository.FindByID (walletRepo u) txCtx fromWalletID s in
      if err \<noteq> None then (Some (ErrorsNew ''sender wallet not found''), s)
      else case fromWallet of
        None \<Rightarrow> (Some NilDereference, s)
      | Some fromWallet \<Rightarrow>
          if Balance fromWallet < amount then (Some (ErrorsNew ''insufficient funds''), s)
          else
            let (toWallet, err, s) =
                  WalletRepository.FindByID (walletRepo u) txCtx toWalletID s in
            if err \<noteq> None then (Some (ErrorsNew ''receiver wallet not found''), s)
            else (case toWallet of
              None \<Rightarrow> (Some NilDereference, s)
            | Some toWallet \<Rightarrow>
                let fromWallet = fromWallet\<lparr>Balance := Balance fromWallet - amount\<rparr>;
                    toWallet = toWallet\<lparr>Balance := Balance toWallet + amount\<rparr>;
                    s = logger u txCtx ''transferring funds''
                          [(''from_wallet'', Str fromWalletID), (''to_wallet'', Str toWalletID),
                           (''amount'', Num amount)] s;
                    (err, s) = Update (walletRepo u) txCtx fromWallet s
                in if err \<noteq> None then (err, s)
                   else
                     let (err, s) = Update (walletRepo u) txCtx toWallet s
                     in if err \<noteq> None then (err, s) else (None, s)))"

definition Transfer ::
  "'s walletUsecase \<Rightarrow> Context \<Rightarrow> string \<Rightarrow> string \<Rightarrow> float64 \<Rightarrow> 's \<Rightarrow> error option \<times> 's"
  where
  "Transfer u ctx fromWalletID toWalletID amount s =
     (if amount \<le> 0 then (Some (ErrorsNew ''transfer amount must be positive''), s)
      else if fromWalletID = toWalletID
        then (Some (ErrorsNew ''cannot transfer to the same wallet''), s)
      else WithTransaction (txnRepo u) ctx (Transfer_fn u fromWalletID toWalletID amount) s)"

section \<open>The outside world: PostgreSQL behind gorm, Redis, standard output\<close>

text \<open>
  A \<open>*gorm.DB\<close> handle is either the connection pool that \<open>gorm.Open\<close> returns, or one open
  transaction. A statement sent on the pool is committed on its own; a statement sent on a
  transaction handle joins that transaction's uncommitted writes.
\<close>

datatype gormDB = Pool | Tx nat

datatype "write" =
    InsertUser User
  | InsertWallet Wallet
  | UpdateWallet Wallet
  | UpsertWallet Wallet

text \<open>
  The state of the world: the committed rows of the two tables (in insertion order), the open
  transactions with their uncommitted writes, the number of transactions begun so far, the
  Redis keys with value and time to live, and what was logged. \<open>faults\<close> and \<open>redis_faults\<close>
  script the environment: the head says whether the next statement (the next Redis command)
  is lost on the way (\<open>True\<close>); an empty script loses nothing.
\<close>

record world =
  users :: "User list"
  wallets :: "Wallet list"
  txs :: "nat \<rightharpoonup> write list"
  begun :: nat
  faults :: "bool list"
  redis :: "string \<rightharpoonup> string \<times> nat"
  redis_faults :: "bool list"
  stdout :: "(string \<times> (string \<times> attr) list) list"

fun apply_write :: "write \<Rightarrow> User list \<times> Wallet list \<Rightarrow> User list \<times> Wallet list" where
  "apply_write (InsertUser u) (us, ws) = (us @ [u], ws)"
| "apply_write (InsertWallet w) (us, ws) = (us, ws @ [w])"
| "apply_write (UpdateWallet w) (us, ws) =
     (us, map (\<lambda>r. if Wallet.ID r = Wallet.ID w then w else r) ws)"
| "apply_write (UpsertWallet w) (us, ws) =
     (if \<exists>r \<in> set ws. Wallet.ID r = Wallet.ID w
      then (us, map (\<lambda>r. if Wallet.ID r = Wallet.ID w then w else r) ws)
      else (us, ws @ [w]))"

text \<open>The rows a statement on a handle sees; \<open>None\<close> when its transaction has ended.\<close>

definition rows :: "gormDB \<Rightarrow> world \<Rightarrow> (User list \<times> Wallet list) option" where
  "rows h s =
     (case h of
        Pool \<Rightarrow> Some (users s, wallets s)
      | Tx k \<Rightarrow>
          (case txs s k of
             None \<Rightarrow> None
           | Some pending \<Rightarrow> Some (foldl (\<lambda>t w. apply_write w t) (users s, wallets s) pending)))"

definition record_write :: "gormDB \<Rightarrow> write \<Rightarrow> world \<Rightarrow> world" where
  "record_write h w s =
     (case h of
        Pool \<Rightarrow> (let (us, ws) = apply_write w (users s, wallets s)
                 in s\<lparr>users := us, wallets := ws\<rparr>)
      | Tx k \<Rightarrow>
          (case txs s k of
             None \<Rightarrow> s
           | Some pending \<Rightarrow> s\<lparr>txs := (txs s)(k \<mapsto> pending @ [w])\<rparr>))"

text \<open>Sending one statement: it is lost, or refused because the transaction is over, or it
  reaches the server and works on the rows its handle sees. \<open>lost s\<close> says that the next
  statement is lost, \<open>sent s\<close> is the world once it has been sent, and \<open>served n s\<close> says
  that none of the next \<open>n\<close> statements is lost.\<close>

definition lost :: "world \<Rightarrow> bool" where
  "lost s = (faults s \<noteq> [] \<and> hd (faults s))"

definition sent :: "world \<Rightarrow> world" where
  "sent s = s\<lparr>faults := tl (faults s)\<rparr>"

primrec served :: "nat \<Rightarrow> world \<Rightarrow> bool" where
  "served 0 s = True"
| "served (Suc n) s = (\<not> lost s \<and> served n (sent s))"

definition send :: "gormDB \<Rightarrow> world \<Rightarrow> (error + User list \<times> Wallet list) \<times> world" where
  "send h s =
     (if lost s then (Inl ConnError, sent s)
      else case rows h (sent s) of
             None \<Rightarrow> (Inl ErrTxDone, sent s)
           | Some t \<Rightarrow> (Inr t, sent s))"

definition gorm_WithContext :: "gormDB \<Rightarrow> Context \<Rightarrow> gormDB" where
  "gorm_WithContext db ctx = db"

text \<open>\<open>db.Where(cond).First(&dest)\<close>: the row found, or \<open>ErrRecordNotFound\<close>. The lookups
  by identifier and by username are on unique columns, where the order of \<open>First\<close> does not
  matter. (For \<open>FindByUserID\<close>, which no use case calls, the model gives the first wallet
  inserted where \<open>First\<close> gives the one with the least identifier.)\<close>

definition gorm_First_User :: "gormDB \<Rightarrow> (User \<Rightarrow> bool) \<Rightarrow> world \<Rightarrow> (error + User) \<times> world" where
  "gorm_First_User h cond s =
     (case send h s of
        (Inl e, s) \<Rightarrow> (Inl e, s)
      | (Inr (us, ws), s) \<Rightarrow>
          (case find cond us of
             None \<Rightarrow> (Inl ErrRecordNotFound, s)
           | Some u \<Rightarrow> (Inr u, s)))"

definition gorm_First_Wallet ::
  "gormDB \<Rightarrow> (Wallet \<Rightarrow> bool) \<Rightarrow> world \<Rightarrow> (error + Wallet) \<times> world" where
  "gorm_First_Wallet h cond s =
     (case send h s of
        (Inl e, s) \<Rightarrow> (Inl e, s)
      | (Inr (us, ws), s) \<Rightarrow>
          (case find cond ws of
             None \<Rightarrow> (Inl ErrRecordNotFound, s)
           | Some w \<Rightarrow> (Inr w, s)))"

text \<open>\<open>db.Create(&user)\<close>: an INSERT, which the primary key and the unique constraints on
  username and dni may refuse (SQLSTATE 23505).\<close>

definition gorm_Create_User :: "gormDB \<Rightarrow> User \<Rightarrow> world \<Rightarrow> error option \<times> world" where
  "gorm_Create_User h u s =
     (case send h s of
        (Inl e, s) \<Rightarrow> (Some e, s)
      | (Inr (us, ws), s) \<Rightarrow>
          if \<exists>r \<in> set us. User.ID r = User.ID u \<or> Username r = Username u \<or> DNI r = DNI u
          then (Some (PgError ''23505''), s)
          else (None, record_write h (InsertUser u) s))"

text \<open>\<open>db.Create(&wallet)\<close>: an INSERT, which the primary key (23505) and the foreign key
  \<open>fk_wallets_users\<close> of the migration (23503) may refuse.\<close>

definition gorm_Create_Wallet :: "gormDB \<Rightarrow> Wallet \<Rightarrow> world \<Rightarrow> error option \<times> world" where
  "gorm_Create_Wallet h w s =
     (case send h s of
        (Inl e, s) \<Rightarrow> (Some e, s)
      | (Inr (us, ws), s) \<Rightarrow>
          if \<exists>r \<in> set ws. Wallet.ID r = Wallet.ID w then (Some (PgError ''23505''), s)
          else if UserID w \<notin> User.ID ` set us then (Some (PgError ''23503''), s)
          else (None, record_write h (InsertWallet w) s))"

text \<open>
  \<open>db.Save(&wallet)\<close>, as gorm defines it: with a zero primary key it is \<open>Create\<close>; otherwise
  an UPDATE of every column of the rows with that key, and when that UPDATE touched no row,
  an INSERT ... ON CONFLICT DO UPDATE of the same value.
\<close>

definition gorm_Save_Wallet :: "gormDB \<Rightarrow> Wallet \<Rightarrow> world \<Rightarrow> error option \<times> world" where
  "gorm_Save_Wallet h w s =
     (if Wallet.ID w = [] then gorm_Create_Wallet h w s
      else case send h s of
        (Inl e, s) \<Rightarrow> (Some e, s)
      | (Inr (us, ws), s) \<Rightarrow>
          if \<exists>r \<in> set ws. Wallet.ID r = Wallet.ID w
          then (if UserID w \<notin> User.ID ` set us then (Some (PgError ''23503''), s)
                else (None, record_write h (UpdateWallet w) s))
          else (case send h s of
                  (Inl e, s) \<Rightarrow> (Some e, s)
                | (Inr (us, ws), s) \<Rightarrow>
                    if UserID w \<notin> User.ID ` set us then (Some (PgError ''23503''), s)
                    else (None, record_write h (UpsertWallet w) s)))"

text \<open>BEGIN, ROLLBACK and COMMIT. A rollback drops the transaction with its writes; a commit
  makes the rows the transaction sees the committed ones.\<close>

definition gorm_Begin :: "gormDB \<Rightarrow> world \<Rightarrow> (error + gormDB) \<times> world" where
  "gorm_Begin h s =
     (case send h s of
        (Inl e, s) \<Rightarrow> (Inl e, s)
      | (Inr t, s) \<Rightarrow>
          (Inr (Tx (begun s)), s\<lparr>txs := (txs s)(begun s \<mapsto> []), begun := Suc (begun s)\<rparr>))"

definition gorm_Rollback :: "gormDB \<Rightarrow> world \<Rightarrow> world" where
  "gorm_Rollback h s = (case h of Pool \<Rightarrow> s | Tx k \<Rightarrow> s\<lparr>txs := (txs s)(k := None)\<rparr>)"

definition gorm_Commit :: "gormDB \<Rightarrow> world \<Rightarrow> error option \<times> world" where
  "gorm_Commit h s =
     (case send h s of
        (Inl e, s) \<Rightarrow> (Some e, gorm_Rollback h s)
      | (Inr (us, ws), s) \<Rightarrow>
          (None, case h of
                   Pool \<Rightarrow> s
                 | Tx k \<Rightarrow> s\<lparr>users := us, wallets := ws, txs := (txs s)(k := None)\<rparr>))"

text \<open>
  \<open>db.Transaction(fc)\<close>: on the pool it begins a transaction, runs \<open>fc\<close> with the handle of
  that transaction, commits when \<open>fc\<close> returns nil and rolls back otherwise, returning
  \<open>fc\<close>'s error. On a transaction handle it nests: a failing \<open>fc\<close> is rolled back to the
  savepoint taken before it.
\<close>

definition gorm_Transaction ::
  "gormDB \<Rightarrow> (gormDB \<Rightarrow> world \<Rightarrow> error option \<times> world) \<Rightarrow> world \<Rightarrow> error option \<times> world" where
  "gorm_Transaction h fc s =
     (case h of
        Pool \<Rightarrow>
          (case gorm_Begin h s of
             (Inl e, s) \<Rightarrow> (Some e, s)
           | (Inr tx, s) \<Rightarrow>
               (case fc tx s of
                  (None, s) \<Rightarrow> gorm_Commit tx s
                | (Some e, s) \<Rightarrow> (Some e, gorm_Rollback tx s)))
      | Tx k \<Rightarrow>
          (let savepoint = txs s k in
           case fc (Tx k) s of
             (None, s) \<Rightarrow> (None, s)
           | (Some e, s) \<Rightarrow> (Some e, s\<lparr>txs := (txs s)(k := savepoint)\<rparr>)))"

definition slog_InfoContext :: "Context \<Rightarrow> string \<Rightarrow> (string \<times> attr) list \<Rightarrow> world \<Rightarrow> world" where
  "slog_InfoContext ctx msg args s = s\<lparr>stdout := stdout s @ [(msg, args)]\<rparr>"

section \<open>The PostgreSQL repositories (internal/infrastructure/postgres)\<close>

text \<open>Each repository is a struct with the one field \<open>db\<close>; the methods take the receiver as
  that handle.\<close>

definition postgresWalletRepository_Save ::
  "gormDB \<Rightarrow> Context \<Rightarrow> Wallet \<Rightarrow> world \<Rightarrow> error option \<times> world" where
  "postgresWalletRepository_Save db ctx wallet s =
     gorm_Create_Wallet (gorm_WithContext db ctx) wallet s"

definition postgresWalletRepository_FindByID ::
  "gormDB \<Rightarrow> Context \<Rightarrow> string \<Rightarrow> world \<Rightarrow> Wallet option \<times> error option \<times> world" where
  "postgresWalletRepository_FindByID db ctx walletID s =
     (case gorm_First_Wallet (gorm_WithContext db ctx) (\<lambda>w. Wallet.ID w = walletID) s of
        (Inl err, s) \<Rightarrow>
          if err = ErrRecordNotFound then (None, Some (ErrorsNew ''wallet not found''), s)
          else (None, Some err, s)
      | (Inr wallet, s) \<Rightarrow> (Some wallet, None, s))"

definition postgresWalletRepository_FindByUserID ::
  "gormDB \<Rightarrow> Context \<Rightarrow> string \<Rightarrow> world \<Rightarrow> Wallet option \<times> error option \<times> world" where
  "postgresWalletRepository_FindByUserID db ctx userID s =
     (case gorm_First_Wallet (gorm_WithContext db ctx) (\<lambda>w. UserID w = userID) s of
        (Inl err, s) \<Rightarrow>
          if err = ErrRecordNotFound
          then (None, Some (ErrorsNew ''wallet not found for user''), s)
          else (None, Some err, s)
      | (Inr wallet, s) \<Rightarrow> (Some wallet, None, s))"

definition postgresWalletRepository_Update ::
  "gormDB \<Rightarrow> Context \<Rightarrow> Wallet \<Rightarrow> world \<Rightarrow> error option \<times> world" where
  "postgresWalletRepository_Update db ctx wallet s =
     gorm_Save_Wallet (gorm_WithContext db ctx) wallet s"

definition NewPostgresWalletRepository :: "gormDB \<Rightarrow> world WalletRepository" where
  "NewPostgresWalletRepository db =
     \<lparr>WalletRepository.Save = postgresWalletRepository_Save db,
      WalletRepository.FindByID = postgresWalletRepository_FindByID db,
      FindByUserID = postgresWalletRepository_FindByUserID db,
      Update = postgresWalletRepository_Update db\<rparr>"

text \<open>\<open>WithTransaction\<close> calls \<open>fn\<close> with the context it was given; the handle \<open>tx\<close> of the
  transaction is not used.\<close>

definition postgresTxnRepository_WithTransaction ::
  "gormDB \<Rightarrow> Context \<Rightarrow> (Context \<Rightarrow> world \<Rightarrow> error option \<times> world) \<Rightarrow> world
     \<Rightarrow> error option \<times> world" where
  "postgresTxnRepository_WithTransaction db ctx fn s =
     gorm_Transaction (gorm_WithContext db ctx) (\<lambda>tx. fn ctx) s"

definition NewPostgresTxnRepository :: "gormDB \<Rightarrow> world TxnRepository" where
  "NewPostgresTxnRepository db = \<lparr>WithTransaction = postgresTxnRepository_WithTransaction db\<rparr>"

definition postgresUserRepository_FindByID ::
  "gormDB \<Rightarrow> Context \<Rightarrow> string \<Rightarrow> world \<Rightarrow> User option \<times> error option \<times> world" where
  "postgresUserRepository_FindByID db ctx userID s =
     (case gorm_First_User (gorm_WithContext db ctx) (\<lambda>u. User.ID u = userID) s of
        (Inl err, s) \<Rightarrow>
          if err = ErrRecordNotFound then (None, Some (ErrorsNew ''user not found''), s)
          else (None, Some err, s)
      | (Inr user, s) \<Rightarrow> (Some user, None, s))"

definition postgresUserRepository_FindByUsername ::
  "gormDB \<Rightarrow> Context \<Rightarrow> string \<Rightarrow> world \<Rightarrow> User option \<times> error option \<times> world" where
  "postgresUserRepository_FindByUsername db ctx username s =
     (case gorm_First_User (gorm_WithContext db ctx) (\<lambda>u. Username u = username) s of
        (Inl err, s) \<Rightarrow>
          if err = ErrRecordNotFound then (None, Some (ErrorsNew ''user not found''), s)
          else (None, Some err, s)
      | (Inr user, s) \<Rightarrow> (Some user, None, s))"

definition postgresUserRepository_Save ::
  "gormDB \<Rightarrow> Context \<Rightarrow> User \<Rightarrow> world \<Rightarrow> error option \<times> world" where
  "postgresUserRepository_Save db ctx user s =
     gorm_Create_User (gorm_WithContext db ctx) user s"

definition NewPostgresUserRepository :: "gormDB \<Rightarrow> world UserRepository" where
  "NewPostgresUserRepository db =
     \<lparr>UserRepository.Save = postgresUserRepository_Save db,
      UserRepository.FindByID = postgresUserRepository_FindByID db,
      FindByUsername = postgresUserRepository_FindByUsername db\<rparr>"

section \<open>The Redis cache and the caching decorator (internal/infrastructure/redis)\<close>

text \<open>
  \<open>encoding/json\<close> is taken as given: \<open>Marshal\<close> of a \<open>*User\<close> (which does not fail) and
  \<open>Unmarshal\<close> into a \<open>User\<close>, \<open>None\<close> when it returns an error.
\<close>

record json =
  Marshal :: "User option \<Rightarrow> string"
  Unmarshal :: "string \<Rightarrow> User option"

text \<open>The go-redis client: GET answers \<open>redis.Nil\<close> for a key that is not there. A key
  is stored with its time to live; its expiry is the passing of time, which is not
  modelled: an expired key is a key that is not there.\<close>

definition redis_Get :: "string \<Rightarrow> world \<Rightarrow> string \<times> error option \<times> world" where
  "redis_Get key s =
     (let s' = s\<lparr>redis_faults := tl (redis_faults s)\<rparr> in
      if redis_faults s \<noteq> [] \<and> hd (redis_faults s) then ([], Some ConnError, s')
      else case redis s key of
             None \<Rightarrow> ([], Some RedisNil, s')
           | Some (v, ttl) \<Rightarrow> (v, None, s'))"

definition redis_Set :: "string \<Rightarrow> string \<Rightarrow> nat \<Rightarrow> world \<Rightarrow> error option \<times> world" where
  "redis_Set key v ttl s =
     (let s' = s\<lparr>redis_faults := tl (redis_faults s)\<rparr> in
      if redis_faults s \<noteq> [] \<and> hd (redis_faults s) then (Some ConnError, s')
      else (None, s'\<lparr>redis := (redis s)(key \<mapsto> (v, ttl))\<rparr>))"

definition redisCacheRepository_Set ::
  "json \<Rightarrow> Context \<Rightarrow> string \<Rightarrow> User option \<Rightarrow> nat \<Rightarrow> world \<Rightarrow> error option \<times> world" where
  "redisCacheRepository_Set js ctx key val ttl s =
     (let jsonValue = Marshal js val in redis_Set key jsonValue ttl s)"

definition redisCacheRepository_Get ::
  "Context \<Rightarrow> string \<Rightarrow> world \<Rightarrow> string \<times> error option \<times> world" where
  "redisCacheRepository_Get ctx key s = redis_Get key s"

definition NewRedisCacheRepository :: "json \<Rightarrow> world CacheRepository" where
  "NewRedisCacheRepository js =
     \<lparr>Set = redisCacheRepository_Set js, Get = redisCacheRepository_Get\<rparr>"

record 's cachedUserRepository =
  cacheRepo :: "'s CacheRepository"
  nextRepo :: "'s UserRepository"

definition Minute :: nat where
  "Minute = 60 * 1000000000"

definition cachedUserRepository_FindByID ::
  "json \<Rightarrow> 's cachedUserRepository \<Rightarrow> Context \<Rightarrow> string \<Rightarrow> 's
     \<Rightarrow> User option \<times> error option \<times> 's" where
  "cachedUserRepository_FindByID js c ctx userID s =
     (let cacheKey = ''user:'' @ userID;
          (cachedUserJSON, err, s) = Get (cacheRepo c) ctx cacheKey s
      in case (if err = None \<and> cachedUserJSON \<noteq> [] then Unmarshal js cachedUserJSON
               else None) of
           Some user \<Rightarrow> (Some user, None, s)
         | None \<Rightarrow>
             let (user, err, s) = UserRepository.FindByID (nextRepo c) ctx userID s in
             if err \<noteq> None then (None, err, s)
             else
               let (cacheErr, s) = Set (cacheRepo c) ctx cacheKey user (5 * Minute) s
               in (user, None, s))"

definition cachedUserRepository_Save ::
  "'s cachedUserRepository \<Rightarrow> Context \<Rightarrow> User \<Rightarrow> 's \<Rightarrow> error option \<times> 's" where
  "cachedUserRepository_Save c ctx user s = UserRepository.Save (nextRepo c) ctx user s"

definition cachedUserRepository_FindByUsername ::
  "'s cachedUserRepository \<Rightarrow> Context \<Rightarrow> string \<Rightarrow> 's \<Rightarrow> User option \<times> error option \<times> 's"
  where
  "cachedUserRepository_FindByUsername c ctx username s =
     FindByUsername (nextRepo c) ctx username s"

definition NewCachedUserRepository ::
  "json \<Rightarrow> 's CacheRepository \<Rightarrow> 's UserRepository \<Rightarrow> 's UserRepository" where
  "NewCachedUserRepository js cache next =
     (let c = \<lparr>cacheRepo = cache, nextRepo = next\<rparr> in
      \<lparr>UserRepository.Save = cachedUserRepository_Save c,
       UserRepository.FindByID = cachedUserRepository_FindByID js c,
       FindByUsername = cachedUserRepository_FindByUsername c\<rparr>)"

section \<open>The wiring of cmd/api\<close>

definition main_userRepo :: "json \<Rightarrow> world UserRepository" where
  "main_userRepo js =
     NewCachedUserRepository js (NewRedisCacheRepository js) (NewPostgresUserRepository Pool)"

definition main_userUsecase :: "json \<Rightarrow> world userUsecase" where
  "main_userUsecase js =
     \<lparr>userRepo = main_userRepo js,
      userUsecase.walletRepo = NewPostgresWalletRepository Pool,
      userUsecase.txnRepo = NewPostgresTxnRepository Pool\<rparr>"

definition main_walletUsecase :: "world walletUsecase" where
  "main_walletUsecase =
     \<lparr>walletRepo = NewPostgresWalletRepository Pool,
      txnRepo = NewPostgresTxnRepository Pool,
      logger = slog_InfoContext\<rparr>"

section \<open>Requests served concurrently\<close>

text \<open>
  Each request runs in its own goroutine; what the goroutines share is the database. A
  thread is a call of \<open>Recharge\<close> or \<open>Transfer\<close> on the use case wired in \<open>main\<close>, stopped in
  front of its next call to a repository or to the transaction; it holds the handle of its
  transaction and the local variables that are still live. One step runs the thread up to
  its next such call (or to its return): the validation and \<open>BEGIN\<close>; each \<open>FindByID\<close> with
  the checks that follow it; each \<open>Update\<close>; the \<open>COMMIT\<close>. The rollback after a failure
  touches only the thread's own transaction and is part of the step that failed. (In
  \<open>Save\<close>, the UPDATE and the INSERT that follows an UPDATE of no row are one step.)
\<close>

datatype call = RechargeCall string float64 | TransferCall string string float64

datatype thread =
    Called call
  | Recharge_FindByID gormDB string float64
  | Recharge_Update gormDB Wallet
  | Transfer_FindByID_from gormDB string string float64
  | Transfer_FindByID_to gormDB Wallet string string float64
  | Transfer_Update_from gormDB Wallet Wallet
  | Transfer_Update_to gormDB Wallet
  | Commit gormDB
  | Returned "error option"

fun step :: "thread \<Rightarrow> world \<Rightarrow> thread \<times> world" where
  "step (Called (RechargeCall walletID amount)) s =
     (if amount \<le> 0 then (Returned (Some (ErrorsNew ''recharge amount must be positive'')), s)
      else case gorm_Begin Pool s of
             (Inl e, s) \<Rightarrow> (Returned (Some e), s)
           | (Inr tx, s) \<Rightarrow> (Recharge_FindByID tx walletID amount, s))"
| "step (Called (TransferCall fromWalletID toWalletID amount)) s =
     (if amount \<le> 0 then (Returned (Some (ErrorsNew ''transfer amount must be positive'')), s)
      else if fromWalletID = toWalletID
        then (Returned (Some (ErrorsNew ''cannot transfer to the same wallet'')), s)
      else case gorm_Begin Pool s of
             (Inl e, s) \<Rightarrow> (Returned (Some e), s)
           | (Inr tx, s) \<Rightarrow> (Transfer_FindByID_from tx fromWalletID toWalletID amount, s))"
| "step (Recharge_FindByID tx walletID amount) s =
     (let (wallet, err, s) =
            WalletRepository.FindByID (walletRepo main_walletUsecase) Background walletID s in
      if err \<noteq> None then (Returned err, gorm_Rollback tx s)
      else case wallet of
        None \<Rightarrow> (Returned (Some NilDereference), gorm_Rollback tx s)
      | Some wallet \<Rightarrow>
          let wallet = wallet\<lparr>Balance := Balance wallet + amount\<rparr>;
              s = logger main_walletUsecase Background ''recharging wallet''
                    [(''wallet_id'', Str walletID), (''amount'', Num amount)] s
          in (Recharge_Update tx wallet, s))"
| "step (Recharge_Update tx wallet) s =
     (let (err, s) = Update (walletRepo main_walletUsecase) Background wallet s in
      if err \<noteq> None then (Returned err, gorm_Rollback tx s) else (Commit tx, s))"
| "step (Transfer_FindByID_from tx fromWalletID toWalletID amount) s =
     (let (fromWallet, err, s) =
            WalletRepository.FindByID (walletRepo main_walletUsecase) Background fromWalletID s in
      if err \<noteq> None
      then (Returned (Some (ErrorsNew ''sender wallet not found'')), gorm_Rollback tx s)
      else case fromWallet of
        None \<Rightarrow> (Returned (Some NilDereference), gorm_Rollback tx s)
      | Some fromWallet \<Rightarrow>
          if Balance fromWallet < amount
          then (Returned (Some (ErrorsNew ''insufficient funds'')), gorm_Rollback tx s)
          else (Transfer_FindByID_to tx fromWallet fromWalletID toWalletID amount, s))"
| "step (Transfer_FindByID_to tx fromWallet fromWalletID toWalletID amount) s =
     (let (toWallet, err, s) =
            WalletRepository.FindByID (walletRepo main_walletUsecase) Background toWalletID s in
      if err \<noteq> None
      then (Returned (Some (ErrorsNew ''receiver wallet not found'')), gorm_Rollback tx s)
      else case toWallet of
        None \<Rightarrow> (Returned (Some NilDereference), gorm_Rollback tx s)
      | Some toWallet \<Rightarrow>
          let fromWallet = fromWallet\<lparr>Balance := Balance fromWallet - amount\<rparr>;
              toWallet = toWallet\<lparr>Balance := Balance toWallet + amount\<rparr>;
              s = logger main_walletUsecase Background ''transferring funds''
                    [(''from_wallet'', Str fromWalletID), (''to_wallet'', Str toWalletID),
                     (''amount'', Num amount)] s
          in (Transfer_Update_from tx fromWallet toWallet, s))"
| "step (Transfer_Update_from tx fromWallet toWallet) s =
     (let (err, s) = Update (walletRepo main_walletUsecase) Background fromWallet s in
      if err \<noteq> None then (Returned err, gorm_Rollback tx s)
      else (Transfer_Update_to tx toWallet, s))"
| "step (Transfer_Update_to tx toWallet) s =
     (let (err, s) = Update (walletRepo main_walletUsecase) Background toWallet s in
      if err \<noteq> None then (Returned err, gorm_Rollback tx s) else (Commit tx, s))"
| "step (Commit tx) s = (let (err, s) = gorm_Commit tx s in (Returned err, s))"
| "step (Returned err) s = (Returned err, s)"

text \<open>A schedule names, step by step, the thread that moves next.\<close>

fun run :: "nat list \<Rightarrow> thread list \<times> world \<Rightarrow> thread list \<times> world" where
  "run [] c = c"
| "run (i # sched) (ts, s) =
     (if i < length ts
      then (let (t, s') = step (ts ! i) s in run sched (ts[i := t], s'))
      else run sched (ts, s))"

section \<open>What is observed of the stored wallets\<close>

definition balance_of :: "string \<Rightarrow> world \<Rightarrow> float64 option" where
  "balance_of walletID s =
     map_option Balance (find (\<lambda>w. Wallet.ID w = walletID) (wallets s))"

definition nonnegative :: "world \<Rightarrow> bool" where
  "nonnegative s = (\<forall>w \<in> set (wallets s). 0 \<le> Balance w)"

text \<open>What a thread holds is sound when the amounts it still has to use are positive, the
  sender it read covers the amount, and the balances it is about to write are not negative.\<close>

fun sound :: "thread \<Rightarrow> bool" where
  "sound (Recharge_FindByID tx walletID amount) = (0 < amount)"
| "sound (Recharge_Update tx wallet) = (0 \<le> Balance wallet)"
| "sound (Transfer_FindByID_from tx fromWalletID toWalletID amount) = (0 < amount)"
| "sound (Transfer_FindByID_to tx fromWallet fromWalletID toWalletID amount) =
     (0 < amount \<and> amount \<le> Balance fromWallet)"
| "sound (Transfer_Update_from tx fromWallet toWallet) =
     (0 \<le> Balance fromWallet \<and> 0 \<le> Balance toWallet)"
| "sound (Transfer_Update_to tx toWallet) = (0 \<le> Balance toWallet)"
| "sound t = True"

section \<open>A sample world\<close>

text \<open>Two users with one wallet each, nothing cached, no transaction open; the argument is
  the script of lost statements.\<close>

definition demo :: "bool list \<Rightarrow> world" where
  "demo fs =
     \<lparr>users = [\<lparr>User.ID = ''u1'', Username = ''alice'', Name = ''Alice'', DNI = ''1''\<rparr>,
               \<lparr>User.ID = ''u2'', Username = ''bob'', Name = ''Bob'', DNI = ''2''\<rparr>],
      wallets = [\<lparr>Wallet.ID = ''A'', UserID = ''u1'', Currency = ''USD'', Balance = 100\<rparr>,
                 \<lparr>Wallet.ID = ''B'', UserID = ''u2'', Currency = ''USD'', Balance = 50\<rparr>],
      txs = Map.empty, begun = 0, faults = fs,
      redis = Map.empty, redis_faults = [], stdout = []\<rparr>"


definition sample_json :: json where
  "sample_json = \<lparr>Marshal = (\<lambda>u. ''{}''), Unmarshal = (\<lambda>x. None)\<rparr>"

section \<open>The transactions of the threads\<close>

text \<open>The handle a thread holds; \<open>unwritten s h\<close> says that the handle is the pool or a
  transaction begun in \<open>s\<close> that holds no write; \<open>keeps s s'\<close> says that \<open>s'\<close> has begun
  what \<open>s\<close> had and has changed none of its transactions but by ending it.\<close>

fun handle :: "thread \<Rightarrow> gormDB" where
  "handle (Recharge_FindByID tx walletID amount) = tx"
| "handle (Recharge_Update tx wallet) = tx"
| "handle (Transfer_FindByID_from tx fromWalletID toWalletID amount) = tx"
| "handle (Transfer_FindByID_to tx fromWallet fromWalletID toWalletID amount) = tx"
| "handle (Transfer_Update_from tx fromWallet toWallet) = tx"
| "handle (Transfer_Update_to tx toWallet) = tx"
| "handle (Commit tx) = tx"
| "handle t = Pool"

definition unwritten :: "world \<Rightarrow> gormDB \<Rightarrow> bool" where
  "unwritten s h =
     (case h of
        Pool \<Rightarrow> True
      | Tx k \<Rightarrow> k < begun s \<and> (txs s k = None \<or> txs s k = Some []))"

definition keeps :: "world \<Rightarrow> world \<Rightarrow> bool" where
  "keeps s s' = (begun s \<le> begun s' \<and> (\<forall>k < begun s. txs s' k = txs s k \<or> txs s' k = None))"

section \<open>Statements on the connection pool\<close>

lemmas gorm_defs = lost_def sent_def send_def rows_def record_write_def gorm_WithContext_def
  gorm_First_User_def gorm_First_Wallet_def gorm_Create_User_def gorm_Create_Wallet_def
  gorm_Save_Wallet_def gorm_Begin_def gorm_Rollback_def gorm_Commit_def gorm_Transaction_def
  slog_InfoContext_def

lemmas postgres_defs = postgresWalletRepository_Save_def postgresWalletRepository_FindByID_def
  postgresWalletRepository_FindByUserID_def postgresWalletRepository_Update_def
  NewPostgresWalletRepository_def postgresTxnRepository_WithTransaction_def
  NewPostgresTxnRepository_def postgresUserRepository_FindByID_def
  postgresUserRepository_FindByUsername_def postgresUserRepository_Save_def
  NewPostgresUserRepository_def

lemmas main_wallet_defs = main_walletUsecase_def NewPostgresTxnRepository_def
  NewPostgresWalletRepository_def

lemma sent_simps [simp]:
  "users (sent s) = users s" "wallets (sent s) = wallets s" "txs (sent s) = txs s"
  "begun (sent s) = begun s" "redis (sent s) = redis s" "stdout (sent s) = stdout s"
  "redis_faults (sent s) = redis_faults s"
  by (simp_all add: sent_def)

lemma lost_upd [simp]:
  "lost (s\<lparr>txs := t\<rparr>) = lost s" "lost (s\<lparr>begun := b\<rparr>) = lost s"
  "lost (s\<lparr>wallets := w\<rparr>) = lost s" "lost (s\<lparr>users := u\<rparr>) = lost s"
  "lost (s\<lparr>stdout := l\<rparr>) = lost s" "lost (s\<lparr>redis := r\<rparr>) = lost s"
  "lost (s\<lparr>redis_faults := rf\<rparr>) = lost s"
  by (simp_all add: lost_def)

lemma sent_upd [simp]:
  "sent (s\<lparr>txs := t\<rparr>) = (sent s)\<lparr>txs := t\<rparr>"
  "sent (s\<lparr>begun := b\<rparr>) = (sent s)\<lparr>begun := b\<rparr>"
  "sent (s\<lparr>wallets := w\<rparr>) = (sent s)\<lparr>wallets := w\<rparr>"
  "sent (s\<lparr>users := u\<rparr>) = (sent s)\<lparr>users := u\<rparr>"
  "sent (s\<lparr>stdout := l\<rparr>) = (sent s)\<lparr>stdout := l\<rparr>"
  "sent (s\<lparr>redis := r\<rparr>) = (sent s)\<lparr>redis := r\<rparr>"
  "sent (s\<lparr>redis_faults := rf\<rparr>) = (sent s)\<lparr>redis_faults := rf\<rparr>"
  by (simp_all add: sent_def)

lemma send_Pool:
  "send Pool s = (if lost s then Inl ConnError else Inr (users s, wallets s), sent s)"
  by (simp add: send_def rows_def)

lemma FindByID_Pool:
  "postgresWalletRepository_FindByID Pool ctx i s =
     (if lost s then (None, Some ConnError, sent s)
      else case find (\<lambda>w. Wallet.ID w = i) (wallets s) of
             None \<Rightarrow> (None, Some (ErrorsNew ''wallet not found''), sent s)
           | Some w \<Rightarrow> (Some w, None, sent s))"
  by (simp add: postgresWalletRepository_FindByID_def gorm_First_Wallet_def gorm_WithContext_def
      send_Pool split: option.splits)

lemma Create_Wallet_Pool:
  "gorm_Create_Wallet Pool w s =
     (if lost s then (Some ConnError, sent s)
      else if \<exists>r \<in> set (wallets s). Wallet.ID r = Wallet.ID w
        then (Some (PgError ''23505''), sent s)
      else if UserID w \<notin> User.ID ` set (users s) then (Some (PgError ''23503''), sent s)
      else (None, (sent s)\<lparr>wallets := wallets s @ [w]\<rparr>))"
  by (simp add: gorm_Create_Wallet_def send_Pool record_write_def)

lemma Save_Wallet_Pool:
  "gorm_Save_Wallet Pool w s =
     (if Wallet.ID w = [] then gorm_Create_Wallet Pool w s
      else if lost s then (Some ConnError, sent s)
      else if \<exists>r \<in> set (wallets s). Wallet.ID r = Wallet.ID w
        then (if UserID w \<notin> User.ID ` set (users s) then (Some (PgError ''23503''), sent s)
              else (None, (sent s)\<lparr>wallets :=
                      map (\<lambda>r. if Wallet.ID r = Wallet.ID w then w else r) (wallets s)\<rparr>))
      else if lost (sent s) then (Some ConnError, sent (sent s))
      else if UserID w \<notin> User.ID ` set (users s)
        then (Some (PgError ''23503''), sent (sent s))
      else (None, (sent (sent s))\<lparr>wallets := wallets s @ [w]\<rparr>))"
  by (simp add: gorm_Save_Wallet_def send_Pool record_write_def)

text \<open>With repositories that send their statements on the pool, the transaction that
  \<open>WithTransaction\<close> opens stays empty: committing it or rolling it back leaves the tables as
  the function left them.\<close>

lemma WithTransaction_Pool:
  "postgresTxnRepository_WithTransaction Pool ctx fn s =
     (if lost s then (Some ConnError, sent s)
      else case fn ctx ((sent s)\<lparr>txs := (txs s)(begun s \<mapsto> []), begun := Suc (begun s)\<rparr>) of
             (None, s2) \<Rightarrow> gorm_Commit (Tx (begun s)) s2
           | (Some e, s2) \<Rightarrow> (Some e, s2\<lparr>txs := (txs s2)(begun s := None)\<rparr>))"
  by (simp add: postgresTxnRepository_WithTransaction_def gorm_Transaction_def
      gorm_WithContext_def gorm_Begin_def send_Pool gorm_Rollback_def
      split: prod.splits option.splits)

lemma Begin_Pool:
  "gorm_Begin Pool s =
     (if lost s then (Inl ConnError, sent s)
      else (Inr (Tx (begun s)),
            (sent s)\<lparr>txs := (txs s)(begun s \<mapsto> []), begun := Suc (begun s)\<rparr>))"
  by (simp add: gorm_Begin_def send_Pool)

lemma Commit_empty:
  "txs s k = Some [] \<Longrightarrow>
   gorm_Commit (Tx k) s =
     (if lost s then Some ConnError else None, (sent s)\<lparr>txs := (txs s)(k := None)\<rparr>)"
  by (simp add: gorm_Commit_def send_def rows_def gorm_Rollback_def)

section \<open>Lookups in the wallet table\<close>


lemma find_Some_mem: "find P xs = Some x \<Longrightarrow> x \<in> set xs \<and> P x"
  by (induction xs) (auto split: if_splits)


section \<open>Rejected requests\<close>

text \<open>
  Claim C5. \<open>Recharge\<close> with an amount that is not positive fails (``recharge amount must be
  positive''); \<open>Transfer\<close> with an amount that is not positive fails (``transfer amount must
  be positive''), and with a positive amount and the same wallet on both sides it fails
  (``cannot transfer to the same wallet''). These are the invalid-argument failures. This
  holds for any repositories and any state of the world, and the world is returned as it
  was: no method of the transaction or wallet repository is called, so no transaction is
  opened and no stored balance changes.
\<close>

theorem invalid_requests_rejected:
  "(amount \<le> 0 \<longrightarrow>
      Recharge u ctx walletID amount s =
        (Some (ErrorsNew ''recharge amount must be positive''), s)) \<and>
   (amount \<le> 0 \<longrightarrow>
      Transfer v ctx fromWalletID toWalletID amount t =
        (Some (ErrorsNew ''transfer amount must be positive''), t)) \<and>
   (0 < amount \<longrightarrow>
      Transfer v ctx fromWalletID fromWalletID amount t =
        (Some (ErrorsNew ''cannot transfer to the same wallet''), t))"
  by (simp add: Recharge_def Transfer_def)

theorem invalid_requests_rejected_witness:
  "Recharge main_walletUsecase Background ''A'' (-5) (demo []) =
     (Some (ErrorsNew ''recharge amount must be positive''), demo []) \<and>
   Transfer main_walletUsecase Background ''A'' ''B'' 0 (demo []) =
     (Some (ErrorsNew ''transfer amount must be positive''), demo []) \<and>
   Transfer main_walletUsecase Background ''A'' ''A'' 5 (demo []) =
     (Some (ErrorsNew ''cannot transfer to the same wallet''), demo [])"
  using
    invalid_requests_rejected[of "-5" main_walletUsecase Background "''A''" "demo []"
      main_walletUsecase "''A''" "''B''" "demo []"]
    invalid_requests_rejected[of 0 main_walletUsecase Background "''A''" "demo []"
      main_walletUsecase "''A''" "''B''" "demo []"]
    invalid_requests_rejected[of 5 main_walletUsecase Background "''A''" "demo []"
      main_walletUsecase "''A''" "''B''" "demo []"]
  by simp

section \<open>Transfers\<close>

text \<open>For any repositories: once the sender is read with a balance below the amount, the
  function of \<open>Transfer\<close> returns ``insufficient funds'' in the state that read left; no
  other method is called.\<close>

lemma Transfer_fn_insufficient:
  assumes "WalletRepository.FindByID (walletRepo u) txCtx fromWalletID s = (Some w, None, s1)"
    and "Balance w < amount"
  shows "Transfer_fn u fromWalletID toWalletID amount txCtx s =
           (Some (ErrorsNew ''insufficient funds''), s1)"
  using assms by (simp add: Transfer_fn_def)

text \<open>
  Claim C4. A transfer of a positive amount between two different wallets, where the sender
  is stored with a balance below the amount, fails and leaves the wallet and user tables as
  they were; when the two statements that reach the check (\<open>BEGIN\<close> and the sender's
  \<open>SELECT\<close>) are served, the failure is ``insufficient funds''. Nothing is assumed about the
  receiver, which is not loaded before the check: the failure is the same when it does not
  exist.
\<close>

theorem Transfer_insufficient_funds:
  assumes "0 < amount" and "fromWalletID \<noteq> toWalletID"
    and "find (\<lambda>w. Wallet.ID w = fromWalletID) (wallets s) = Some w"
    and "Balance w < amount"
  shows "fst (Transfer main_walletUsecase ctx fromWalletID toWalletID amount s) \<noteq> None
     \<and> wallets (snd (Transfer main_walletUsecase ctx fromWalletID toWalletID amount s)) =
           wallets s
     \<and> users (snd (Transfer main_walletUsecase ctx fromWalletID toWalletID amount s)) =
           users s
     \<and> (served 2 s \<longrightarrow>
           fst (Transfer main_walletUsecase ctx fromWalletID toWalletID amount s) =
             Some (ErrorsNew ''insufficient funds''))"
  using assms
  by (simp add: Transfer_def main_wallet_defs WithTransaction_Pool Transfer_fn_def FindByID_Pool
      numeral_2_eq_2)

theorem Transfer_insufficient_funds_witness:
  "(0::real) < 500 \<and> ''A'' \<noteq> ''Z'' \<and>
   find (\<lambda>w. Wallet.ID w = ''A'') (wallets (demo [])) =
     Some \<lparr>Wallet.ID = ''A'', UserID = ''u1'', Currency = ''USD'', Balance = 100\<rparr> \<and>
   Balance \<lparr>Wallet.ID = ''A'', UserID = ''u1'', Currency = ''USD'', Balance = 100\<rparr> < 500 \<and>
   served 2 (demo []) \<and>
   find (\<lambda>w. Wallet.ID w = ''Z'') (wallets (demo [])) = None \<and>
   fst (Transfer main_walletUsecase Background ''A'' ''Z'' 500 (demo [])) =
     Some (ErrorsNew ''insufficient funds'') \<and>
   wallets (snd (Transfer main_walletUsecase Background ''A'' ''Z'' 500 (demo []))) =
     wallets (demo [])"
proof -
  have h: "(0::real) < 500" "''A'' \<noteq> ''Z''"
    "find (\<lambda>w. Wallet.ID w = ''A'') (wallets (demo [])) =
       Some \<lparr>Wallet.ID = ''A'', UserID = ''u1'', Currency = ''USD'', Balance = 100\<rparr>"
    "Balance \<lparr>Wallet.ID = ''A'', UserID = ''u1'', Currency = ''USD'', Balance = 100\<rparr> < 500"
    "served 2 (demo [])"
    by (simp_all add: demo_def numeral_2_eq_2 lost_def sent_def)
  have z: "find (\<lambda>w. Wallet.ID w = ''Z'') (wallets (demo [])) = None"
    by (simp add: demo_def)
  from Transfer_insufficient_funds[OF h(1-4), of Background] h z show ?thesis by simp
qed







section \<open>The transaction boundary\<close>

text \<open>
  Claim C1 asks that the writes of a function that fails inside \<open>WithTransaction\<close> are undone.
  The repositories wired in \<open>main\<close> send every statement on the pool, and \<open>WithTransaction\<close>
  does not hand the function the handle of the transaction it opened; each write is
  committed on its own, and the rollback has nothing to undo. In the sample world, wallet A
  holds 100 and wallet B holds 50; a transfer of 30 from A to B whose fifth statement (the
  write of the receiver) is lost returns that failure, and A is stored with 70.
\<close>

theorem Transfer_failed_credit_keeps_debit:
  "fst (Transfer main_walletUsecase Background ''A'' ''B'' 30
          (demo [False, False, False, False, True])) = Some ConnError
   \<and> balance_of ''A'' (demo [False, False, False, False, True]) = Some 100
   \<and> balance_of ''A'' (snd (Transfer main_walletUsecase Background ''A'' ''B'' 30
          (demo [False, False, False, False, True]))) = Some 70
   \<and> balance_of ''B'' (snd (Transfer main_walletUsecase Background ''A'' ''B'' 30
          (demo [False, False, False, False, True]))) = Some 50"
  by (simp add: Transfer_def Transfer_fn_def gorm_defs postgres_defs main_walletUsecase_def
      demo_def balance_of_def)

text \<open>The same function with a wallet repository on the handle of the transaction: the
  failure then leaves A with 100, and without the failure both writes are committed.\<close>

lemma Transfer_fn_on_the_handle_rolls_back:
  "fst (gorm_Transaction Pool
     (\<lambda>tx. Transfer_fn \<lparr>walletRepo = NewPostgresWalletRepository tx,
                         txnRepo = NewPostgresTxnRepository Pool,
                         logger = slog_InfoContext\<rparr> ''A'' ''B'' 30 Background)
     (demo [False, False, False, False, True])) = Some ConnError
  \<and> balance_of ''A'' (snd (gorm_Transaction Pool
     (\<lambda>tx. Transfer_fn \<lparr>walletRepo = NewPostgresWalletRepository tx,
                         txnRepo = NewPostgresTxnRepository Pool,
                         logger = slog_InfoContext\<rparr> ''A'' ''B'' 30 Background)
     (demo [False, False, False, False, True]))) = Some 100"
  by (simp add: Transfer_fn_def gorm_defs postgres_defs demo_def balance_of_def)

lemma Transfer_fn_on_the_handle_commits:
  "fst (gorm_Transaction Pool
     (\<lambda>tx. Transfer_fn \<lparr>walletRepo = NewPostgresWalletRepository tx,
                         txnRepo = NewPostgresTxnRepository Pool,
                         logger = slog_InfoContext\<rparr> ''A'' ''B'' 30 Background)
     (demo [])) = None
  \<and> balance_of ''A'' (snd (gorm_Transaction Pool
     (\<lambda>tx. Transfer_fn \<lparr>walletRepo = NewPostgresWalletRepository tx,
                         txnRepo = NewPostgresTxnRepository Pool,
                         logger = slog_InfoContext\<rparr> ''A'' ''B'' 30 Background)
     (demo []))) = Some 70
  \<and> balance_of ''B'' (snd (gorm_Transaction Pool
     (\<lambda>tx. Transfer_fn \<lparr>walletRepo = NewPostgresWalletRepository tx,
                         txnRepo = NewPostgresTxnRepository Pool,
                         logger = slog_InfoContext\<rparr> ''A'' ''B'' 30 Background)
     (demo []))) = Some 80"
  by (simp add: Transfer_fn_def gorm_defs postgres_defs demo_def balance_of_def)


section \<open>Balances under concurrent requests\<close>

lemma unwritten_Pool [simp]: "unwritten s Pool"
  by (simp add: unwritten_def)

lemma unwritten_sent [simp]: "unwritten (sent s) h = unwritten s h"
  by (cases h) (simp_all add: unwritten_def)

lemma unwritten_log [simp]: "unwritten (slog_InfoContext c m a s) h = unwritten s h"
  by (cases h) (simp_all add: unwritten_def slog_InfoContext_def)

lemma keeps_unwritten: "keeps s s' \<Longrightarrow> unwritten s h \<Longrightarrow> unwritten s' h"
  by (cases h) (auto simp: keeps_def unwritten_def)

lemma nonnegative_Rollback [simp]: "nonnegative (gorm_Rollback tx s) = nonnegative s"
  by (cases tx) (simp_all add: gorm_Rollback_def nonnegative_def)

lemma unwritten_Rollback: "unwritten s tx \<Longrightarrow> unwritten (gorm_Rollback tx s) tx"
  by (cases tx) (auto simp: gorm_Rollback_def unwritten_def)

lemma keeps_Rollback: "keeps s s' \<Longrightarrow> keeps s (gorm_Rollback tx s')"
  by (cases tx) (auto simp: gorm_Rollback_def keeps_def)

lemma keeps_sent [simp]: "keeps s (sent s)"
  by (simp add: keeps_def)

lemma nonnegative_sent [simp]: "nonnegative (sent s) = nonnegative s"
  by (simp add: nonnegative_def)

lemma nonnegative_log [simp]: "nonnegative (slog_InfoContext c m a s) = nonnegative s"
  by (simp add: nonnegative_def slog_InfoContext_def)

lemma keeps_log [simp]: "keeps s (slog_InfoContext c m a s') = keeps s s'"
  by (simp add: keeps_def slog_InfoContext_def)

lemma Begin_keeps:
  "gorm_Begin Pool s = (r, s') \<Longrightarrow>
     nonnegative s' = nonnegative s \<and> keeps s s' \<and> (\<forall>tx. r = Inr tx \<longrightarrow> unwritten s' tx)"
  by (auto simp: Begin_Pool nonnegative_def keeps_def unwritten_def split: if_splits)

lemma Commit_keeps:
  assumes "unwritten s tx" and "gorm_Commit tx s = (r, s')"
  shows "nonnegative s' = nonnegative s \<and> keeps s s'"
proof (cases tx)
  case Pool
  with assms show ?thesis
    by (auto simp: gorm_Commit_def send_Pool gorm_Rollback_def split: if_splits)
next
  case (Tx k)
  with assms(1) have "txs s k = None \<or> txs s k = Some []" by (simp add: unwritten_def)
  then show ?thesis
  proof
    assume "txs s k = None"
    with assms Tx show ?thesis
      by (auto simp: gorm_Commit_def send_def rows_def gorm_Rollback_def nonnegative_def
          keeps_def split: if_splits)
  next
    assume "txs s k = Some []"
    from Commit_empty[OF this] assms Tx show ?thesis
      by (auto simp: nonnegative_def keeps_def split: if_splits)
  qed
qed

lemma Update_keeps:
  assumes "postgresWalletRepository_Update Pool ctx w s = (r, s')"
  shows "keeps s s' \<and> (nonnegative s \<longrightarrow> 0 \<le> Balance w \<longrightarrow> nonnegative s')"
  using assms
  by (auto simp: postgresWalletRepository_Update_def gorm_WithContext_def Save_Wallet_Pool
      Create_Wallet_Pool nonnegative_def keeps_def split: if_splits)

lemma FindByID_keeps:
  assumes "postgresWalletRepository_FindByID Pool ctx i s = (w, e, s')"
  shows "s' = sent s \<and> (nonnegative s \<longrightarrow> (\<forall>x. w = Some x \<longrightarrow> 0 \<le> Balance x))"
  using assms
  by (auto simp: FindByID_Pool nonnegative_def split: if_splits option.splits
      dest!: find_Some_mem)

lemma step_keeps:
  assumes n: "nonnegative s" and so: "sound t" and u: "unwritten s (handle t)"
    and st: "step t s = (t', s')"
  shows "nonnegative s' \<and> sound t' \<and> unwritten s' (handle t') \<and> keeps s s'"
proof (cases t)
  case (Called c)
  show ?thesis
  proof (cases c)
    case (RechargeCall i a)
    obtain r s1 where b: "gorm_Begin Pool s = (r, s1)" by (metis prod.exhaust)
    from Begin_keeps[OF b] n st Called RechargeCall b show ?thesis
      by (auto simp: unwritten_def keeps_def split: if_splits sum.splits)
  next
    case (TransferCall i j a)
    obtain r s1 where b: "gorm_Begin Pool s = (r, s1)" by (metis prod.exhaust)
    from Begin_keeps[OF b] n st Called TransferCall b show ?thesis
      by (auto simp: unwritten_def keeps_def split: if_splits sum.splits)
  qed
next
  case (Recharge_FindByID tx i a)
  obtain w e s1 where f: "postgresWalletRepository_FindByID Pool Background i s = (w, e, s1)"
    by (metis prod_cases3)
  from FindByID_keeps[OF f] n so u st Recharge_FindByID f show ?thesis
    by (auto simp: main_wallet_defs split: if_splits option.splits
        intro!: unwritten_Rollback keeps_Rollback)
next
  case (Recharge_Update tx w)
  obtain e s1 where f: "postgresWalletRepository_Update Pool Background w s = (e, s1)"
    by (metis prod.exhaust)
  from Update_keeps[OF f] n so u st Recharge_Update f show ?thesis
    by (auto simp: main_wallet_defs split: if_splits
        intro!: unwritten_Rollback keeps_Rollback intro: keeps_unwritten)
next
  case (Transfer_FindByID_from tx i j a)
  obtain w e s1 where f: "postgresWalletRepository_FindByID Pool Background i s = (w, e, s1)"
    by (metis prod_cases3)
  from FindByID_keeps[OF f] n so u st Transfer_FindByID_from f show ?thesis
    by (auto simp: main_wallet_defs split: if_splits option.splits
        intro!: unwritten_Rollback keeps_Rollback)
next
  case (Transfer_FindByID_to tx fw i j a)
  obtain w e s1 where f: "postgresWalletRepository_FindByID Pool Background j s = (w, e, s1)"
    by (metis prod_cases3)
  from FindByID_keeps[OF f] n so u st Transfer_FindByID_to f show ?thesis
    by (auto simp: main_wallet_defs split: if_splits option.splits
        intro!: unwritten_Rollback keeps_Rollback)
next
  case (Transfer_Update_from tx fw tw)
  obtain e s1 where f: "postgresWalletRepository_Update Pool Background fw s = (e, s1)"
    by (metis prod.exhaust)
  from Update_keeps[OF f] n so u st Transfer_Update_from f show ?thesis
    by (auto simp: main_wallet_defs split: if_splits
        intro!: unwritten_Rollback keeps_Rollback intro: keeps_unwritten)
next
  case (Transfer_Update_to tx tw)
  obtain e s1 where f: "postgresWalletRepository_Update Pool Background tw s = (e, s1)"
    by (metis prod.exhaust)
  from Update_keeps[OF f] n so u st Transfer_Update_to f show ?thesis
    by (auto simp: main_wallet_defs split: if_splits
        intro!: unwritten_Rollback keeps_Rollback intro: keeps_unwritten)
next
  case (Commit tx)
  obtain e s1 where c: "gorm_Commit tx s = (e, s1)" by (metis prod.exhaust)
  from Commit_keeps[OF _ c] n u st Commit c show ?thesis
    by (auto simp: unwritten_def)
next
  case (Returned e)
  with n st show ?thesis by (auto simp: unwritten_def keeps_def)
qed

text \<open>Every step of every thread keeps the stored balances non-negative, what the threads
  hold sound, and their transactions without writes; so does every schedule.\<close>

lemma run_keeps:
  "nonnegative s \<Longrightarrow> \<forall>t \<in> set ts. sound t \<and> unwritten s (handle t) \<Longrightarrow>
     nonnegative (snd (run sched (ts, s)))
     \<and> (\<forall>t \<in> set (fst (run sched (ts, s))).
           sound t \<and> unwritten (snd (run sched (ts, s))) (handle t))"
proof (induction sched arbitrary: ts s)
  case Nil
  then show ?case by simp
next
  case (Cons i sched)
  show ?case
  proof (cases "i < length ts")
    case False
    with Cons show ?thesis by simp
  next
    case True
    obtain t s' where st: "step (ts ! i) s = (t, s')" by (metis prod.exhaust)
    from True Cons.prems have "sound (ts ! i)" "unwritten s (handle (ts ! i))" by simp_all
    from step_keeps[OF Cons.prems(1) this st]
    have n': "nonnegative s'" and so: "sound t" and un: "unwritten s' (handle t)"
      and k: "keeps s s'" by auto
    have "\<forall>x \<in> set (ts[i := t]). sound x \<and> unwritten s' (handle x)"
    proof
      fix x assume "x \<in> set (ts[i := t])"
      then have "x = t \<or> x \<in> set ts" using set_update_subset_insert[of ts i t] by auto
      then show "sound x \<and> unwritten s' (handle x)"
        using so un Cons.prems(2) keeps_unwritten[OF k] by auto
    qed
    from Cons.IH[OF n' this] True st show ?thesis by simp
  qed
qed


lemma Context_is_Background: "(ctx::Context) = Background" by (cases ctx) simp

text \<open>A thread that runs alone is the call of the use case: four steps for \<open>Recharge\<close>,
  six for \<open>Transfer\<close>.\<close>

lemma Recharge_as_thread:
  "run [0, 0, 0, 0] ([Called (RechargeCall walletID amount)], s) =
     ([Returned (fst (Recharge main_walletUsecase Background walletID amount s))],
      snd (Recharge main_walletUsecase Background walletID amount s))"
  by (auto simp: Recharge_def Recharge_fn_def main_wallet_defs
       postgresTxnRepository_WithTransaction_def gorm_Transaction_def gorm_WithContext_def
       Let_def
      split: prod.splits sum.splits option.splits)

lemma Transfer_as_thread:
  "run [0, 0, 0, 0, 0, 0] ([Called (TransferCall a b amount)], s) =
     ([Returned (fst (Transfer main_walletUsecase Background a b amount s))],
      snd (Transfer main_walletUsecase Background a b amount s))"
  by (auto simp: Transfer_def Transfer_fn_def main_wallet_defs
       postgresTxnRepository_WithTransaction_def gorm_Transaction_def gorm_WithContext_def
       Let_def
      split: prod.splits sum.splits option.splits)



text \<open>The calls one at a time.\<close>

lemma Transfer_keeps_nonnegative:
  assumes "nonnegative s"
  shows "nonnegative (snd (Transfer main_walletUsecase ctx a b amount s))"
proof -
  have "\<forall>t \<in> set [Called (TransferCall a b amount)]. sound t \<and> unwritten s (handle t)"
    by simp
  from run_keeps[OF assms this, of "[0, 0, 0, 0, 0, 0]"] show ?thesis
    by (simp add: Transfer_as_thread Context_is_Background[of ctx] del: run.simps)
qed

lemma Recharge_keeps_nonnegative:
  assumes "nonnegative s"
  shows "nonnegative (snd (Recharge main_walletUsecase ctx walletID amount s))"
proof -
  have "\<forall>t \<in> set [Called (RechargeCall walletID amount)]. sound t \<and> unwritten s (handle t)"
    by simp
  from run_keeps[OF assms this, of "[0, 0, 0, 0]"] show ?thesis
    by (simp add: Recharge_as_thread Context_is_Background[of ctx] del: run.simps)
qed

text \<open>Two transfers from wallet A (balance 100), of 60 and of 70, whose statements alternate:
  both read 100, both pass the check and both return nil; the later writes win, and A is
  left with 30.\<close>

lemma alternating_transfers_both_succeed:
  "fst (run [0, 1, 0, 1, 0, 1, 0, 1, 0, 1, 0, 1]
       (map Called [TransferCall ''A'' ''B'' 60, TransferCall ''A'' ''B'' 70], demo [])) =
     [Returned None, Returned None]
   \<and> balance_of ''A'' (snd (run [0, 1, 0, 1, 0, 1, 0, 1, 0, 1, 0, 1]
       (map Called [TransferCall ''A'' ''B'' 60, TransferCall ''A'' ''B'' 70], demo []))) =
     Some 30
   \<and> balance_of ''B'' (snd (run [0, 1, 0, 1, 0, 1, 0, 1, 0, 1, 0, 1]
       (map Called [TransferCall ''A'' ''B'' 60, TransferCall ''A'' ''B'' 70], demo []))) =
     Some 120"
  by (simp add: gorm_defs postgres_defs main_walletUsecase_def demo_def balance_of_def)

section \<open>Creating a user\<close>

lemmas main_user_defs = main_userUsecase_def main_userRepo_def NewCachedUserRepository_def
  cachedUserRepository_Save_def cachedUserRepository_FindByUsername_def
  NewPostgresUserRepository_def NewPostgresTxnRepository_def NewPostgresWalletRepository_def

lemma main_FindByUsername:
  "FindByUsername (userRepo (main_userUsecase js)) ctx username s =
     (if lost s then (None, Some ConnError, sent s)
      else case find (\<lambda>u. Username u = username) (users s) of
             None \<Rightarrow> (None, Some (ErrorsNew ''user not found''), sent s)
           | Some u \<Rightarrow> (Some u, None, sent s))"
  by (simp add: main_user_defs Let_def postgresUserRepository_FindByUsername_def
      gorm_First_User_def gorm_WithContext_def send_Pool split: option.splits)

lemma Create_User_Pool:
  "gorm_Create_User Pool u s =
     (if lost s then (Some ConnError, sent s)
      else if \<exists>r \<in> set (users s).
                User.ID r = User.ID u \<or> Username r = Username u \<or> DNI r = DNI u
        then (Some (PgError ''23505''), sent s)
      else (None, (sent s)\<lparr>users := users s @ [u]\<rparr>))"
  by (simp add: gorm_Create_User_def send_Pool record_write_def)

lemma Create_fn_main:
  "Create_fn (main_userUsecase js) user walletUUID ctx s =
     (case gorm_Create_User Pool user s of
        (Some e, s1) \<Rightarrow> (Some e, s1)
      | (None, s1) \<Rightarrow>
          gorm_Create_Wallet Pool
            \<lparr>Wallet.ID = walletUUID, UserID = User.ID user, Currency = ''USD'', Balance = 0\<rparr>
            s1)"
  by (auto simp: Create_fn_def main_user_defs Let_def postgresUserRepository_Save_def
      postgresWalletRepository_Save_def gorm_WithContext_def NewWallet_def DefaultCurrency_def
      DefaultBalance_def split: prod.splits option.splits)

lemma Create_main:
  "Create (main_userUsecase js) userUUID walletUUID ctx username name dni s =
     (case FindByUsername (userRepo (main_userUsecase js)) ctx username s of
        (existingUser, err, s1) \<Rightarrow>
          if err = None \<and> existingUser \<noteq> None
          then (None, Some (ErrorsNew ''username already exists''), s1)
          else (case postgresTxnRepository_WithTransaction Pool ctx
                  (Create_fn (main_userUsecase js)
                     \<lparr>User.ID = userUUID, Username = username, Name = name, DNI = dni\<rparr>
                     walletUUID) s1 of
                  (None, s2) \<Rightarrow>
                    (Some \<lparr>User.ID = userUUID, Username = username, Name = name, DNI = dni\<rparr>,
                     None, s2)
                | (Some e, s2) \<Rightarrow> (None, Some e, s2)))"
  by (auto simp: Create_def Let_def main_userUsecase_def NewPostgresTxnRepository_def
      split: prod.splits option.splits)

text \<open>
  Claim C6. When a user with the username is stored, \<open>Create\<close> (on the use case wired in
  \<open>main\<close>) fails and the user and wallet tables are as before: neither a user nor a wallet
  is persisted. When the lookup of the username is served, the failure is ``username already
  exists'' and nothing but that lookup was sent: no transaction is opened. (When the lookup
  is lost, the failure is the one of the transaction that follows.)
\<close>

theorem Create_duplicate_username:
  assumes "\<exists>r \<in> set (users s). Username r = username"
  shows "fst (snd (Create (main_userUsecase js) userUUID walletUUID ctx username name dni s))
           \<noteq> None
    \<and> users (snd (snd (Create (main_userUsecase js) userUUID walletUUID ctx username name dni
         s))) = users s
    \<and> wallets (snd (snd (Create (main_userUsecase js) userUUID walletUUID ctx username name
         dni s))) = wallets s
    \<and> (\<not> lost s \<longrightarrow>
          Create (main_userUsecase js) userUUID walletUUID ctx username name dni s =
            (None, Some (ErrorsNew ''username already exists''), sent s))"
proof -
  from assms have f: "find (\<lambda>u. Username u = username) (users s) \<noteq> None"
    by (auto simp: find_None_iff)
  show ?thesis
    using assms f
    by (auto simp: Create_main main_FindByUsername WithTransaction_Pool Create_fn_main
        Create_User_Pool split: option.splits)
qed

theorem Create_duplicate_username_witness:
  "(\<exists>r \<in> set (users (demo [])). Username r = ''alice'') \<and> \<not> lost (demo [])
   \<and> Create (main_userUsecase sample_json) ''u3'' ''w3'' Background ''alice'' ''Alice'' ''3''
        (demo []) =
        (None, Some (ErrorsNew ''username already exists''), sent (demo []))
   \<and> users (snd (snd (Create (main_userUsecase sample_json) ''u3'' ''w3'' Background ''alice''
        ''Alice'' ''3'' (demo [])))) = users (demo [])
   \<and> wallets (snd (snd (Create (main_userUsecase sample_json) ''u3'' ''w3'' Background
        ''alice'' ''Alice'' ''3'' (demo [])))) = wallets (demo [])"
proof -
  have h: "\<exists>r \<in> set (users (demo [])). Username r = ''alice''" by (simp add: demo_def)
  have l: "\<not> lost (demo [])" by (simp add: lost_def demo_def)
  from Create_duplicate_username[OF h, of sample_json "''u3''" "''w3''" Background "''Alice''"
      "''3''"] h l
  show ?thesis by simp
qed



text \<open>
  Claim C10. For any repositories: \<open>Create\<close> returns ``username already exists'' from its
  check exactly when the lookup of the username returns no error and a user. When the
  lookup returns an error, whichever it is (or no user), \<open>Create\<close> goes on from the state
  the lookup left: it builds the user and calls \<open>WithTransaction\<close> with the function that
  inserts the user and the wallet, and returns what that gives.
\<close>

theorem Create_precheck:
  assumes "FindByUsername (userRepo u) ctx username s = (existingUser, err, s1)"
  shows "(err = None \<and> existingUser \<noteq> None \<longrightarrow>
            Create u userUUID walletUUID ctx username name dni s =
              (None, Some (ErrorsNew ''username already exists''), s1))
    \<and> (err \<noteq> None \<or> existingUser = None \<longrightarrow>
            Create u userUUID walletUUID ctx username name dni s =
              (case WithTransaction (userUsecase.txnRepo u) ctx
                      (Create_fn u
                         \<lparr>User.ID = userUUID, Username = username, Name = name, DNI = dni\<rparr>
                         walletUUID) s1 of
                 (None, s2) \<Rightarrow>
                   (Some \<lparr>User.ID = userUUID, Username = username, Name = name, DNI = dni\<rparr>,
                    None, s2)
               | (Some e, s2) \<Rightarrow> (None, Some e, s2)))"
  using assms
  by (auto simp: Create_def Let_def split: prod.splits option.splits)

text \<open>In the sample world: when the lookup of ``alice'' is lost, \<open>Create\<close> opens a transaction
  and the insert is refused by the unique constraint; when it is served, the check rejects.\<close>

theorem Create_precheck_witness:
  "FindByUsername (userRepo (main_userUsecase sample_json)) Background ''alice'' (demo [True]) =
     (None, Some ConnError, demo [])
   \<and> fst (snd (Create (main_userUsecase sample_json) ''u3'' ''w3'' Background ''alice''
        ''Alice'' ''3'' (demo [True]))) = Some (PgError ''23505'')
   \<and> begun (snd (snd (Create (main_userUsecase sample_json) ''u3'' ''w3'' Background ''alice''
        ''Alice'' ''3'' (demo [True])))) = 1
   \<and> FindByUsername (userRepo (main_userUsecase sample_json)) Background ''alice'' (demo []) =
     (Some \<lparr>User.ID = ''u1'', Username = ''alice'', Name = ''Alice'', DNI = ''1''\<rparr>, None,
      demo [])
   \<and> Create (main_userUsecase sample_json) ''u3'' ''w3'' Background ''alice'' ''Alice'' ''3''
        (demo []) =
        (None, Some (ErrorsNew ''username already exists''), demo [])"
proof -
  have h1: "FindByUsername (userRepo (main_userUsecase sample_json)) Background ''alice''
      (demo [True]) = (None, Some ConnError, demo [])"
    by (simp add: main_FindByUsername lost_def sent_def demo_def)
  have h2: "FindByUsername (userRepo (main_userUsecase sample_json)) Background ''alice''
      (demo []) =
     (Some \<lparr>User.ID = ''u1'', Username = ''alice'', Name = ''Alice'', DNI = ''1''\<rparr>, None,
      demo [])"
    by (simp add: main_FindByUsername lost_def sent_def demo_def)
  have t: "WithTransaction (userUsecase.txnRepo (main_userUsecase sample_json)) Background
       (Create_fn (main_userUsecase sample_json)
          \<lparr>User.ID = ''u3'', Username = ''alice'', Name = ''Alice'', DNI = ''3''\<rparr> ''w3'')
       (demo []) =
     (Some (PgError ''23505''), (demo [])\<lparr>begun := 1\<rparr>)"
    by (simp add: Create_fn_def main_user_defs gorm_defs postgres_defs demo_def Let_def)
  from Create_precheck[OF h1, of "''u3''" "''w3''" "''Alice''" "''3''"]
       Create_precheck[OF h2, of "''u3''" "''w3''" "''Alice''" "''3''"] h1 h2 t
  show ?thesis by simp
qed


section \<open>The caching decorator\<close>

text \<open>For any cache and any backing store: after a lookup that gave an error, an empty
  string or a string that does not deserialize, the decorator returns the error of the
  backing store's \<open>FindByID\<close>, and its user when there is no error, whatever \<open>Set\<close> does.\<close>

lemma cached_FindByID_miss:
  assumes "Get (cacheRepo c) ctx (''user:'' @ userID) s = (cachedUserJSON, err, s1)"
    and "err \<noteq> None \<or> cachedUserJSON = [] \<or> Unmarshal js cachedUserJSON = None"
    and "UserRepository.FindByID (nextRepo c) ctx userID s1 = (user, err', s2)"
  shows "fst (snd (cachedUserRepository_FindByID js c ctx userID s)) = err'
     \<and> fst (cachedUserRepository_FindByID js c ctx userID s) =
         (if err' = None then user else None)"
  using assms
  by (auto simp: cachedUserRepository_FindByID_def Let_def split: prod.splits option.splits)

lemma User_FindByID_Pool:
  "postgresUserRepository_FindByID Pool ctx i s =
     (if lost s then (None, Some ConnError, sent s)
      else case find (\<lambda>u. User.ID u = i) (users s) of
             None \<Rightarrow> (None, Some (ErrorsNew ''user not found''), sent s)
           | Some u \<Rightarrow> (Some u, None, sent s))"
  by (simp add: postgresUserRepository_FindByID_def gorm_First_User_def gorm_WithContext_def
      send_Pool split: option.splits)

lemma redis_Get_frame:
  "redisCacheRepository_Get ctx key s = (j, e, s1) \<Longrightarrow>
     users s1 = users s \<and> lost s1 = lost s"
  by (auto simp: redisCacheRepository_Get_def redis_Get_def Let_def lost_def
      split: if_splits option.splits prod.splits)

lemma User_FindByID_Pool_same:
  "users s1 = users s \<Longrightarrow> lost s1 = lost s \<Longrightarrow>
     fst (postgresUserRepository_FindByID Pool ctx i s1) =
       fst (postgresUserRepository_FindByID Pool ctx i s)
     \<and> fst (snd (postgresUserRepository_FindByID Pool ctx i s1)) =
       fst (snd (postgresUserRepository_FindByID Pool ctx i s))"
  by (simp add: User_FindByID_Pool split: option.splits)

lemma User_FindByID_Pool_nil:
  "fst (snd (postgresUserRepository_FindByID Pool ctx i s)) \<noteq> None \<Longrightarrow>
     fst (postgresUserRepository_FindByID Pool ctx i s) = None"
  by (simp add: User_FindByID_Pool split: option.splits if_splits)

text \<open>
  Claim C9. For the user repository wired in \<open>main\<close> (the decorator over Redis and the
  PostgreSQL repository): when the cache lookup under \<open>user:<id>\<close> returns an error (the key
  is not there, or the command failed), an empty string, or a string that does not
  deserialize, \<open>FindByID\<close> returns the same user and the same error as the PostgreSQL
  repository's \<open>FindByID\<close> called in the same world. The world is arbitrary, so this holds
  whether the cache write that follows succeeds or fails.
\<close>

theorem cached_FindByID_falls_back:
  assumes g: "redisCacheRepository_Get ctx (''user:'' @ userID) s = (cachedUserJSON, err, s1)"
    and m: "err \<noteq> None \<or> cachedUserJSON = [] \<or> Unmarshal js cachedUserJSON = None"
  shows "fst (UserRepository.FindByID (main_userRepo js) ctx userID s) =
           fst (postgresUserRepository_FindByID Pool ctx userID s)
     \<and> fst (snd (UserRepository.FindByID (main_userRepo js) ctx userID s)) =
           fst (snd (postgresUserRepository_FindByID Pool ctx userID s))"
proof -
  let ?c = "\<lparr>cacheRepo = NewRedisCacheRepository js,
             nextRepo = NewPostgresUserRepository Pool\<rparr>"
  have e: "UserRepository.FindByID (main_userRepo js) ctx userID s =
      cachedUserRepository_FindByID js ?c ctx userID s"
    by (simp add: main_userRepo_def NewCachedUserRepository_def Let_def)
  have g': "Get (cacheRepo ?c) ctx (''user:'' @ userID) s = (cachedUserJSON, err, s1)"
    using g by (simp add: NewRedisCacheRepository_def)
  obtain user err' s2 where
    n: "UserRepository.FindByID (nextRepo ?c) ctx userID s1 = (user, err', s2)"
    by (metis prod_cases3)
  from redis_Get_frame[OF g] have fr: "users s1 = users s" "lost s1 = lost s" by auto
  from n have n': "postgresUserRepository_FindByID Pool ctx userID s1 = (user, err', s2)"
    by (simp add: NewPostgresUserRepository_def)
  from User_FindByID_Pool_same[OF fr, of ctx userID] n'
  have same: "fst (postgresUserRepository_FindByID Pool ctx userID s) = user"
     "fst (snd (postgresUserRepository_FindByID Pool ctx userID s)) = err'"
    by simp_all
  from User_FindByID_Pool_nil[of ctx userID s] same
  have nil: "err' \<noteq> None \<longrightarrow> user = None" by simp
  from cached_FindByID_miss[OF g' m n] same nil show ?thesis
    unfolding e by auto
qed

text \<open>In the sample world with an empty cache whose second command (the write) is lost.\<close>

theorem cached_FindByID_falls_back_witness:
  "redisCacheRepository_Get Background (''user:'' @ ''u1'')
      ((demo [])\<lparr>redis_faults := [False, True]\<rparr>) =
     ([], Some RedisNil, (demo [])\<lparr>redis_faults := [True]\<rparr>)
   \<and> fst (UserRepository.FindByID (main_userRepo sample_json) Background ''u1''
        ((demo [])\<lparr>redis_faults := [False, True]\<rparr>)) =
       Some \<lparr>User.ID = ''u1'', Username = ''alice'', Name = ''Alice'', DNI = ''1''\<rparr>
   \<and> fst (snd (UserRepository.FindByID (main_userRepo sample_json) Background ''u1''
        ((demo [])\<lparr>redis_faults := [False, True]\<rparr>))) = None"
proof -
  have g: "redisCacheRepository_Get Background (''user:'' @ ''u1'')
      ((demo [])\<lparr>redis_faults := [False, True]\<rparr>) =
     ([], Some RedisNil, (demo [])\<lparr>redis_faults := [True]\<rparr>)"
    by (simp add: redisCacheRepository_Get_def redis_Get_def demo_def)
  have p: "postgresUserRepository_FindByID Pool Background ''u1''
      ((demo [])\<lparr>redis_faults := [False, True]\<rparr>) =
     (Some \<lparr>User.ID = ''u1'', Username = ''alice'', Name = ''Alice'', DNI = ''1''\<rparr>, None,
      (demo [])\<lparr>redis_faults := [False, True]\<rparr>)"
    by (simp add: User_FindByID_Pool lost_def sent_def demo_def)
  from cached_FindByID_falls_back[OF g, of sample_json] g p show ?thesis by simp
qed


section \<open>Updating a wallet\<close>





end
